theory Spec2Isabelle
  imports Main
begin

section \<open>Data model\<close>

text \<open>
  The router \<^verbatim>\<open>app/routers/sales_cases.py\<close> reads two entities that are declared
  in \<^verbatim>\<open>app/models.py\<close>: the user resolved by the authentication dependency and the sales
  case returned by the CRUD layer.
\<close>

text \<open>
  Modelled from the spec: the enumeration \<^verbatim>\<open>models.UserRole\<close> is imported by the router
  but declared elsewhere; the spec gives a user a role that is ADMIN or SALES_REP.
\<close>

datatype UserRole = ADMIN | SALES_REP

text \<open>
  Modelled from the spec: \<^verbatim>\<open>models.User\<close> has an \<^verbatim>\<open>id\<close> and a \<^verbatim>\<open>role\<close>. The field
  \<^verbatim>\<open>id\<close> is written \<open>id_user\<close>, since \<open>id\<close> is the identity function of HOL.
\<close>

record User =
  id_user :: int
  role :: UserRole

text \<open>
  Modelled from the spec: a sales case is identified by \<^verbatim>\<open>case_id\<close> and has a
  \<^verbatim>\<open>sales_rep_id\<close> and a \<^verbatim>\<open>status\<close>. The enumeration \<^verbatim>\<open>models.SalesCaseStatus\<close> is
  not listed by the spec, so the type of the status is a parameter \<open>'st\<close>.
\<close>

record 'st SalesCase =
  case_id :: int
  sales_rep_id :: int
  status :: 'st

section \<open>Exceptions\<close>

text \<open>
  A raised exception is a value. \<open>ValueError m\<close> stands for any exception that the
  clause \<^verbatim>\<open>except ValueError\<close> catches, \<open>PermissionError m\<close> for any exception that
  \<^verbatim>\<open>except PermissionError\<close> catches, and \<open>m\<close> is what \<^verbatim>\<open>str(e)\<close> yields.
  \<open>HTTPException code detail\<close> is the exception of the web framework, and
  \<open>OtherException m\<close> is every other exception.
\<close>

datatype py_exception =
    ValueError string
  | PermissionError string
  | HTTPException nat string
  | OtherException string

text \<open>The constants of \<^verbatim>\<open>fastapi.status\<close> that the router names.\<close>

definition HTTP_201_CREATED :: nat where
  "HTTP_201_CREATED = 201"

definition HTTP_400_BAD_REQUEST :: nat where
  "HTTP_400_BAD_REQUEST = 400"

definition HTTP_403_FORBIDDEN :: nat where
  "HTTP_403_FORBIDDEN = 403"

section \<open>The handlers\<close>

text \<open>
  Each handler takes the function of the CRUD layer that it calls as its first argument;
  the remaining arguments are those of the Python function, in its order, with the
  dependencies (\<^verbatim>\<open>db\<close>, \<^verbatim>\<open>current_user\<close>) already resolved. A call of the CRUD layer
  either raises (\<open>Inl\<close>) or returns (\<open>Inr\<close>), and so does the handler.
\<close>

definition create_new_sales_case ::
  "('db \<Rightarrow> 'cc \<Rightarrow> py_exception + 'st SalesCase) \<Rightarrow>
   'cc \<Rightarrow> 'db \<Rightarrow> User \<Rightarrow> py_exception + 'st SalesCase" where
  "create_new_sales_case crud_create_sales_case case_create db current_admin =
     (case crud_create_sales_case db case_create of
        Inr new_case \<Rightarrow> Inr new_case
      | Inl (ValueError e) \<Rightarrow> Inl (HTTPException HTTP_400_BAD_REQUEST e)
      | Inl ex \<Rightarrow> Inl ex)"

definition read_sales_cases ::
  "('db \<Rightarrow> User \<Rightarrow> 'st option \<Rightarrow> int option \<Rightarrow> py_exception + 'st SalesCase list) \<Rightarrow>
   'st option \<Rightarrow> int option \<Rightarrow> 'db \<Rightarrow> User \<Rightarrow> py_exception + 'st SalesCase list" where
  "read_sales_cases crud_get_sales_cases status_q sales_rep_q db current_user =
     (case crud_get_sales_cases db current_user status_q sales_rep_q of
        Inr cases \<Rightarrow> Inr cases
      | Inl ex \<Rightarrow> Inl ex)"

definition read_sales_case ::
  "('db \<Rightarrow> int \<Rightarrow> py_exception + 'st SalesCase option) \<Rightarrow>
   int \<Rightarrow> 'db \<Rightarrow> User \<Rightarrow> py_exception + 'st SalesCase" where
  "read_sales_case crud_get_sales_case cid db current_user =
     (case crud_get_sales_case db cid of
        Inl ex \<Rightarrow> Inl ex
      | Inr None \<Rightarrow> Inl (HTTPException 404 ''Sales case not found'')
      | Inr (Some db_case) \<Rightarrow>
          if role current_user = SALES_REP \<and> sales_rep_id db_case \<noteq> id_user current_user
          then Inl (HTTPException 403 ''Not authorized to view this sales case'')
          else Inr db_case)"

definition return_sales_case ::
  "('db \<Rightarrow> int \<Rightarrow> 'rr \<Rightarrow> User \<Rightarrow> py_exception + 'report) \<Rightarrow>
   int \<Rightarrow> 'rr \<Rightarrow> 'db \<Rightarrow> User \<Rightarrow> py_exception + 'report" where
  "return_sales_case crud_process_sales_case_return cid return_request db current_user =
     (case crud_process_sales_case_return db cid return_request current_user of
        Inr report \<Rightarrow> Inr report
      | Inl (ValueError e) \<Rightarrow> Inl (HTTPException HTTP_400_BAD_REQUEST e)
      | Inl (PermissionError e) \<Rightarrow> Inl (HTTPException HTTP_403_FORBIDDEN e)
      | Inl ex \<Rightarrow> Inl ex)"

section \<open>The route table\<close>

text \<open>
  The decorators of the four handlers give the method, the path under the prefix of the
  router and, for the creating route only, a status code for the successful response. A
  route without a declared status code answers with 200.
\<close>

datatype http_method = GET | POST

record route =
  http_method :: http_method
  path :: string
  status_code :: nat

definition prefix_router :: string where
  "prefix_router = ''/sales-cases''"

definition create_new_sales_case_route :: route where
  "create_new_sales_case_route =
     \<lparr>http_method = POST, path = prefix_router @ ''/'', status_code = HTTP_201_CREATED\<rparr>"

definition read_sales_cases_route :: route where
  "read_sales_cases_route =
     \<lparr>http_method = GET, path = prefix_router @ ''/'', status_code = 200\<rparr>"

definition read_sales_case_route :: route where
  "read_sales_case_route =
     \<lparr>http_method = GET, path = prefix_router @ ''/{case_id}'', status_code = 200\<rparr>"

definition return_sales_case_route :: route where
  "return_sales_case_route =
     \<lparr>http_method = POST, path = prefix_router @ ''/{case_id}/return'', status_code = 200\<rparr>"

text \<open>
  What the web framework sends for the outcome of a handler: a returned value goes out
  with the status code of the route, an \<open>HTTPException\<close> with its own status code and
  detail, and any other exception is not handled by the application.
\<close>

datatype 'a http_response =
    Response nat 'a
  | ErrorResponse nat string
  | Unhandled py_exception

definition respond :: "route \<Rightarrow> py_exception + 'a \<Rightarrow> 'a http_response" where
  "respond r outcome =
     (case outcome of
        Inr v \<Rightarrow> Response (status_code r) v
      | Inl (HTTPException code detail) \<Rightarrow> ErrorResponse code detail
      | Inl ex \<Rightarrow> Unhandled ex)"

section \<open>The CRUD layer\<close>

text \<open>
  Modelled from the spec: the function \<^verbatim>\<open>crud.get_sales_cases\<close> is called by the
  router and lives in \<^verbatim>\<open>app/crud.py\<close>. The spec says of it that an admin may pass any
  filter and that a sales rep is always scoped to their own cases regardless of the
  requested filter. The database session is the list of the stored cases; a filter that
  is absent (\<open>None\<close>) selects every case.
\<close>

definition crud_get_sales_cases ::
  "'st SalesCase list \<Rightarrow> User \<Rightarrow> 'st option \<Rightarrow> int option \<Rightarrow>
   py_exception + 'st SalesCase list" where
  "crud_get_sales_cases db current_user status_q sales_rep_q =
     Inr (filter
       (\<lambda>c. (case status_q of None \<Rightarrow> True | Some s \<Rightarrow> status c = s) \<and>
            (if role current_user = SALES_REP then sales_rep_id c = id_user current_user
             else (case sales_rep_q of None \<Rightarrow> True | Some r \<Rightarrow> sales_rep_id c = r)))
       db)"

text \<open>
  Modelled from the spec: the lookup \<^verbatim>\<open>crud.get_sales_case\<close> of \<^verbatim>\<open>app/crud.py\<close>. A
  sales case is identified by its \<^verbatim>\<open>case_id\<close>; the lookup returns the stored case with
  that id, or \<^verbatim>\<open>None\<close> when there is none.
\<close>

definition crud_get_sales_case ::
  "'st SalesCase list \<Rightarrow> int \<Rightarrow> py_exception + 'st SalesCase option" where
  "crud_get_sales_case db cid = Inr (find (\<lambda>c. case_id c = cid) db)"

section \<open>Concrete callers, cases and collaborators\<close>

text \<open>
  The inputs at which the theorems below are instantiated: an administrator, a sales
  representative, a store of two cases owned by two different representatives, and CRUD
  functions of two and of four arguments that raise a given exception or return a given
  value whatever their arguments are.
\<close>

definition admin_user :: User where
  "admin_user = \<lparr>id_user = 1, role = ADMIN\<rparr>"

definition rep_user :: User where
  "rep_user = \<lparr>id_user = 7, role = SALES_REP\<rparr>"

definition case_of_rep_7 :: "string SalesCase" where
  "case_of_rep_7 = \<lparr>case_id = 10, sales_rep_id = 7, status = ''open''\<rparr>"

definition case_of_rep_8 :: "string SalesCase" where
  "case_of_rep_8 = \<lparr>case_id = 11, sales_rep_id = 8, status = ''open''\<rparr>"

definition stored_cases :: "string SalesCase list" where
  "stored_cases = [case_of_rep_7, case_of_rep_8]"

definition raising2 :: "py_exception \<Rightarrow> 'a \<Rightarrow> 'b \<Rightarrow> py_exception + 'r" where
  "raising2 ex a b = Inl ex"

definition returning2 :: "'r \<Rightarrow> 'a \<Rightarrow> 'b \<Rightarrow> py_exception + 'r" where
  "returning2 v a b = Inr v"

definition raising4 :: "py_exception \<Rightarrow> 'a \<Rightarrow> 'b \<Rightarrow> 'c \<Rightarrow> 'd \<Rightarrow> py_exception + 'r" where
  "raising4 ex a b c d = Inl ex"

definition returning4 :: "'r \<Rightarrow> 'a \<Rightarrow> 'b \<Rightarrow> 'c \<Rightarrow> 'd \<Rightarrow> py_exception + 'r" where
  "returning4 v a b c d = Inr v"

section \<open>Reading one sales case\<close>

text \<open>
  Claim C1. For an existing sales case (the lookup returns it) and any caller of
  GET /sales-cases/{case_id}: a SALES_REP whose id differs from the \<^verbatim>\<open>sales_rep_id\<close> of
  the case gets the HTTP exception 403; an ADMIN, and a SALES_REP whose id equals the
  \<^verbatim>\<open>sales_rep_id\<close> of the case, get the case itself and no authorization error.
\<close>

theorem read_sales_case_authorization:
  assumes "lookup db cid = Inr (Some db_case)"
  shows "(role current_user = SALES_REP \<and> sales_rep_id db_case \<noteq> id_user current_user \<longrightarrow>
            read_sales_case lookup cid db current_user =
              Inl (HTTPException 403 ''Not authorized to view this sales case'')) \<and>
         (role current_user = ADMIN \<or>
            role current_user = SALES_REP \<and> sales_rep_id db_case = id_user current_user \<longrightarrow>
            read_sales_case lookup cid db current_user = Inr db_case)"
  using assms by (auto simp add: read_sales_case_def)

theorem read_sales_case_authorization_witness:
  "crud_get_sales_case stored_cases 11 = Inr (Some case_of_rep_8) \<and>
   read_sales_case crud_get_sales_case 11 stored_cases rep_user =
     Inl (HTTPException 403 ''Not authorized to view this sales case'') \<and>
   read_sales_case crud_get_sales_case 11 stored_cases admin_user = Inr case_of_rep_8 \<and>
   crud_get_sales_case stored_cases 10 = Inr (Some case_of_rep_7) \<and>
   read_sales_case crud_get_sales_case 10 stored_cases rep_user = Inr case_of_rep_7"
proof -
  have found_11: "crud_get_sales_case stored_cases 11 = Inr (Some case_of_rep_8)"
    by (simp add: crud_get_sales_case_def stored_cases_def case_of_rep_7_def case_of_rep_8_def)
  have found_10: "crud_get_sales_case stored_cases 10 = Inr (Some case_of_rep_7)"
    by (simp add: crud_get_sales_case_def stored_cases_def case_of_rep_7_def)
  show ?thesis
    using found_11 found_10
      read_sales_case_authorization [where lookup = crud_get_sales_case
        and db = stored_cases and cid = 11 and db_case = case_of_rep_8
        and current_user = rep_user]
      read_sales_case_authorization [where lookup = crud_get_sales_case
        and db = stored_cases and cid = 11 and db_case = case_of_rep_8
        and current_user = admin_user]
      read_sales_case_authorization [where lookup = crud_get_sales_case
        and db = stored_cases and cid = 10 and db_case = case_of_rep_7
        and current_user = rep_user]
    by (simp add: rep_user_def admin_user_def case_of_rep_7_def case_of_rep_8_def)
qed

text \<open>
  Claim C2. When the lookup \<^verbatim>\<open>crud.get_sales_case\<close> returns \<^verbatim>\<open>None\<close> for a case id, the
  handler of GET /sales-cases/{case_id} raises the HTTP exception with status 404 and
  detail "Sales case not found", whoever the caller is.
\<close>

theorem read_sales_case_not_found:
  assumes "lookup db cid = Inr None"
  shows "read_sales_case lookup cid db current_user =
           Inl (HTTPException 404 ''Sales case not found'')"
  using assms by (simp add: read_sales_case_def)

theorem read_sales_case_not_found_witness:
  "crud_get_sales_case stored_cases 99 = Inr None \<and>
   read_sales_case crud_get_sales_case 99 stored_cases rep_user =
     Inl (HTTPException 404 ''Sales case not found'') \<and>
   read_sales_case crud_get_sales_case 99 stored_cases admin_user =
     Inl (HTTPException 404 ''Sales case not found'')"
proof -
  have absent: "crud_get_sales_case stored_cases 99 = Inr None"
    by (simp add: crud_get_sales_case_def stored_cases_def case_of_rep_7_def case_of_rep_8_def)
  show ?thesis
    using absent
      read_sales_case_not_found [where lookup = crud_get_sales_case
        and db = stored_cases and cid = 99 and current_user = rep_user]
      read_sales_case_not_found [where lookup = crud_get_sales_case
        and db = stored_cases and cid = 99 and current_user = admin_user]
    by simp
qed

text \<open>
  Claim C9. In GET /sales-cases/{case_id} the absence check comes before the ownership
  check. When the lookup returns \<^verbatim>\<open>None\<close>, every caller, a SALES_REP included, gets the
  HTTP exception 404 and never a 403. When the lookup returns and the handler raises the
  HTTP exception 403, the lookup has returned a case, the caller is a SALES_REP and the
  case belongs to another representative.
\<close>

theorem read_sales_case_absence_before_ownership:
  "(lookup db cid = Inr None \<longrightarrow>
      read_sales_case lookup cid db current_user =
        Inl (HTTPException 404 ''Sales case not found'') \<and>
      (\<forall>d. read_sales_case lookup cid db current_user \<noteq> Inl (HTTPException 403 d))) \<and>
   (lookup db cid = Inr found \<and>
      read_sales_case lookup cid db current_user = Inl (HTTPException 403 d) \<longrightarrow>
      (\<exists>db_case. found = Some db_case \<and> role current_user = SALES_REP \<and>
         sales_rep_id db_case \<noteq> id_user current_user))"
  by (cases found) (auto simp add: read_sales_case_def split: if_splits)

theorem read_sales_case_absence_before_ownership_witness:
  "crud_get_sales_case stored_cases 99 = Inr None \<and>
   read_sales_case crud_get_sales_case 99 stored_cases rep_user =
     Inl (HTTPException 404 ''Sales case not found'') \<and>
   read_sales_case crud_get_sales_case 11 stored_cases rep_user =
     Inl (HTTPException 403 ''Not authorized to view this sales case'') \<and>
   (\<exists>db_case. crud_get_sales_case stored_cases 11 = Inr (Some db_case) \<and>
      role rep_user = SALES_REP \<and> sales_rep_id db_case \<noteq> id_user rep_user)"
proof -
  have absent: "crud_get_sales_case stored_cases 99 = Inr None"
    by (simp add: crud_get_sales_case_def stored_cases_def case_of_rep_7_def case_of_rep_8_def)
  have found_11: "crud_get_sales_case stored_cases 11 = Inr (Some case_of_rep_8)"
    by (simp add: crud_get_sales_case_def stored_cases_def case_of_rep_7_def case_of_rep_8_def)
  have refused: "read_sales_case crud_get_sales_case 11 stored_cases rep_user =
      Inl (HTTPException 403 ''Not authorized to view this sales case'')"
    by (simp add: read_sales_case_def found_11 rep_user_def case_of_rep_8_def)
  show ?thesis
    using absent found_11 refused
      read_sales_case_absence_before_ownership [where lookup = crud_get_sales_case
        and db = stored_cases and cid = 99 and current_user = rep_user]
      read_sales_case_absence_before_ownership [where lookup = crud_get_sales_case
        and db = stored_cases and cid = 11 and found = "Some case_of_rep_8"
        and current_user = rep_user and d = "''Not authorized to view this sales case''"]
    by simp
qed

section \<open>Returning a sales case\<close>

text \<open>
  Claim C3. For every call of POST /sales-cases/{case_id}/return: when
  \<^verbatim>\<open>crud.process_sales_case_return\<close> raises a ValueError with message \<open>m\<close>, the handler
  raises the HTTP exception 400 with detail \<open>m\<close>; when it raises a PermissionError with
  message \<open>m\<close>, the handler raises the HTTP exception 403 with detail \<open>m\<close>; when it returns
  a report, the handler returns that report unchanged.
\<close>

theorem return_sales_case_outcomes:
  "(process db cid return_request current_user = Inl (ValueError m) \<longrightarrow>
      return_sales_case process cid return_request db current_user =
        Inl (HTTPException 400 m)) \<and>
   (process db cid return_request current_user = Inl (PermissionError m) \<longrightarrow>
      return_sales_case process cid return_request db current_user =
        Inl (HTTPException 403 m)) \<and>
   (process db cid return_request current_user = Inr report \<longrightarrow>
      return_sales_case process cid return_request db current_user = Inr report)"
  by (simp add: return_sales_case_def HTTP_400_BAD_REQUEST_def HTTP_403_FORBIDDEN_def)

theorem return_sales_case_outcomes_witness:
  "return_sales_case (raising4 (ValueError ''Case already closed'')) 10 () stored_cases rep_user =
     (Inl (HTTPException 400 ''Case already closed'') :: py_exception + string) \<and>
   return_sales_case (raising4 (PermissionError ''Not your case'')) 11 () stored_cases rep_user =
     (Inl (HTTPException 403 ''Not your case'') :: py_exception + string) \<and>
   return_sales_case (returning4 ''3 sold, 2 returned'') 10 () stored_cases rep_user =
     Inr ''3 sold, 2 returned''"
  using
    return_sales_case_outcomes [where process = "raising4 (ValueError ''Case already closed'')"
      and db = stored_cases and cid = 10 and return_request = "()" and current_user = rep_user
      and m = "''Case already closed''" and report = "''x''"]
    return_sales_case_outcomes [where process = "raising4 (PermissionError ''Not your case'')"
      and db = stored_cases and cid = 11 and return_request = "()" and current_user = rep_user
      and m = "''Not your case''" and report = "''x''"]
    return_sales_case_outcomes [where process = "returning4 ''3 sold, 2 returned''"
      and db = stored_cases and cid = 10 and return_request = "()" and current_user = rep_user
      and m = "''x''" and report = "''3 sold, 2 returned''"]
  by (simp add: raising4_def returning4_def)

text \<open>
  Claim C10. The handler of POST /sales-cases/{case_id}/return never raises an HTTP 404
  of its own, as it checks nothing before it delegates to
  \<^verbatim>\<open>crud.process_sales_case_return\<close>: when that call raises, for a case id that does not
  exist as for any other, the handler raises 400 for a ValueError, 403 for a
  PermissionError and the very exception of the CRUD layer otherwise; and when the
  handler raises an HTTP exception with status 404, it is the exception that the CRUD
  layer raised.
\<close>

theorem return_sales_case_no_own_404:
  "(process db cid return_request current_user = Inl ex \<longrightarrow>
      return_sales_case process cid return_request db current_user =
        (case ex of
           ValueError m \<Rightarrow> Inl (HTTPException 400 m)
         | PermissionError m \<Rightarrow> Inl (HTTPException 403 m)
         | _ \<Rightarrow> Inl ex)) \<and>
   (return_sales_case process cid return_request db current_user =
      Inl (HTTPException 404 d) \<longrightarrow>
      process db cid return_request current_user = Inl (HTTPException 404 d))"
  by (auto simp add: return_sales_case_def HTTP_400_BAD_REQUEST_def HTTP_403_FORBIDDEN_def
      split: sum.splits py_exception.splits)

theorem return_sales_case_no_own_404_witness:
  "return_sales_case (raising4 (ValueError ''Sales case 99 not found'')) 99 () stored_cases
     rep_user =
     (Inl (HTTPException 400 ''Sales case 99 not found'') :: py_exception + string) \<and>
   return_sales_case (raising4 (OtherException ''NoResultFound'')) 99 () stored_cases
     rep_user =
     (Inl (OtherException ''NoResultFound'') :: py_exception + string) \<and>
   return_sales_case (raising4 (HTTPException 404 ''gone'')) 99 () stored_cases rep_user =
     (Inl (HTTPException 404 ''gone'') :: py_exception + string) \<and>
   raising4 (HTTPException 404 ''gone'') stored_cases (99 :: int) () rep_user =
     (Inl (HTTPException 404 ''gone'') :: py_exception + string)"
  using
    return_sales_case_no_own_404 [where process =
        "raising4 (ValueError ''Sales case 99 not found'') :: string SalesCase list \<Rightarrow> int \<Rightarrow> unit \<Rightarrow> User \<Rightarrow> py_exception + string"
      and db = stored_cases and cid = 99 and return_request = "()" and current_user = rep_user
      and ex = "ValueError ''Sales case 99 not found''" and d = "''gone''"]
    return_sales_case_no_own_404 [where process =
        "raising4 (OtherException ''NoResultFound'') :: string SalesCase list \<Rightarrow> int \<Rightarrow> unit \<Rightarrow> User \<Rightarrow> py_exception + string"
      and db = stored_cases and cid = 99 and return_request = "()" and current_user = rep_user
      and ex = "OtherException ''NoResultFound''" and d = "''gone''"]
    return_sales_case_no_own_404 [where process =
        "raising4 (HTTPException 404 ''gone'') :: string SalesCase list \<Rightarrow> int \<Rightarrow> unit \<Rightarrow> User \<Rightarrow> py_exception + string"
      and db = stored_cases and cid = 99 and return_request = "()" and current_user = rep_user
      and ex = "HTTPException 404 ''gone''" and d = "''gone''"]
  by (simp add: raising4_def)

section \<open>Creating a sales case\<close>

text \<open>
  Claim C5. For every call of POST /sales-cases/ (the caller is an administrator, as the
  dependency of the route requires; the handler does not read the caller): when
  \<^verbatim>\<open>crud.create_sales_case\<close> raises a ValueError with message \<open>m\<close>, the handler raises
  the HTTP exception 400 with detail \<open>m\<close>; when it returns a new case, the handler returns
  that case unchanged, and the route answers with status 201.
\<close>

theorem create_new_sales_case_outcomes:
  "(create db case_create = Inl (ValueError m) \<longrightarrow>
      create_new_sales_case create case_create db current_admin =
        Inl (HTTPException 400 m)) \<and>
   (create db case_create = Inr new_case \<longrightarrow>
      create_new_sales_case create case_create db current_admin = Inr new_case \<and>
      respond create_new_sales_case_route
        (create_new_sales_case create case_create db current_admin) =
        Response 201 new_case)"
  by (simp add: create_new_sales_case_def respond_def create_new_sales_case_route_def
      HTTP_400_BAD_REQUEST_def HTTP_201_CREATED_def)

theorem create_new_sales_case_outcomes_witness:
  "role admin_user = ADMIN \<and>
   create_new_sales_case (raising2 (ValueError ''Insufficient stock'')) () stored_cases
     admin_user =
     (Inl (HTTPException 400 ''Insufficient stock'') :: py_exception + string SalesCase) \<and>
   create_new_sales_case (returning2 case_of_rep_7) () stored_cases admin_user =
     Inr case_of_rep_7 \<and>
   respond create_new_sales_case_route
     (create_new_sales_case (returning2 case_of_rep_7) () stored_cases admin_user) =
     Response 201 case_of_rep_7"
  using
    create_new_sales_case_outcomes [where create = "raising2 (ValueError ''Insufficient stock'')"
      and db = stored_cases and case_create = "()" and current_admin = admin_user
      and m = "''Insufficient stock''" and new_case = case_of_rep_7]
    create_new_sales_case_outcomes [where create = "returning2 case_of_rep_7"
      and db = stored_cases and case_create = "()" and current_admin = admin_user
      and m = "''x''" and new_case = case_of_rep_7]
  by (simp add: raising2_def returning2_def admin_user_def respond_def
      create_new_sales_case_route_def HTTP_201_CREATED_def)

section \<open>Translation of the exceptions of the CRUD layer\<close>

text \<open>
  Claim C4, as stated: in every endpoint of the router a ValueError of the CRUD layer
  becomes the HTTP exception 400 and a PermissionError becomes the HTTP exception 403, in
  the creating endpoint as in the returning one. The creating handler has no clause for
  PermissionError, and the two reading handlers have no \<^verbatim>\<open>try\<close> at all: there the
  exception leaves the handler as it is.
\<close>

theorem translation_in_every_endpoint_counterexample:
  "create_new_sales_case (raising2 (PermissionError ''denied'')) () stored_cases admin_user =
     (Inl (PermissionError ''denied'') :: py_exception + string SalesCase) \<and>
   create_new_sales_case (raising2 (PermissionError ''denied'')) () stored_cases admin_user \<noteq>
     (Inl (HTTPException 403 ''denied'') :: py_exception + string SalesCase) \<and>
   read_sales_cases (raising4 (ValueError ''bad filter'')) None None stored_cases rep_user =
     (Inl (ValueError ''bad filter'') :: py_exception + string SalesCase list) \<and>
   read_sales_case (raising2 (ValueError ''bad id'')) 10 stored_cases rep_user =
     (Inl (ValueError ''bad id'') :: py_exception + string SalesCase)"
  by (simp add: create_new_sales_case_def read_sales_cases_def read_sales_case_def
      raising2_def raising4_def)

text \<open>
  Claim C4, amended. A ValueError of the CRUD layer becomes the HTTP exception 400, with
  its message as detail, in the creating and in the returning endpoint; a PermissionError
  becomes the HTTP exception 403, with its message as detail, in the returning endpoint
  only. The creating endpoint lets a PermissionError through unchanged, and the listing
  and the reading endpoint let every exception of the CRUD layer through unchanged.
\<close>

theorem translation_per_endpoint:
  "(create db case_create = Inl (ValueError m) \<longrightarrow>
      create_new_sales_case create case_create db current_user =
        Inl (HTTPException 400 m)) \<and>
   (process db cid return_request current_user = Inl (ValueError m) \<longrightarrow>
      return_sales_case process cid return_request db current_user =
        Inl (HTTPException 400 m)) \<and>
   (process db cid return_request current_user = Inl (PermissionError m) \<longrightarrow>
      return_sales_case process cid return_request db current_user =
        Inl (HTTPException 403 m)) \<and>
   (create db case_create = Inl (PermissionError m) \<longrightarrow>
      create_new_sales_case create case_create db current_user =
        Inl (PermissionError m)) \<and>
   (listing db current_user status_q sales_rep_q = Inl ex \<longrightarrow>
      read_sales_cases listing status_q sales_rep_q db current_user = Inl ex) \<and>
   (lookup db cid = Inl ex \<longrightarrow>
      read_sales_case lookup cid db current_user = Inl ex)"
  by (simp add: create_new_sales_case_def return_sales_case_def read_sales_cases_def
      read_sales_case_def HTTP_400_BAD_REQUEST_def HTTP_403_FORBIDDEN_def)

theorem translation_per_endpoint_witness:
  "create_new_sales_case (raising2 (ValueError ''Invalid sales rep'')) () stored_cases
     admin_user =
     (Inl (HTTPException 400 ''Invalid sales rep'') :: py_exception + string SalesCase) \<and>
   return_sales_case (raising4 (ValueError ''Invalid sales rep'')) 10 () stored_cases
     admin_user =
     (Inl (HTTPException 400 ''Invalid sales rep'') :: py_exception + string) \<and>
   return_sales_case (raising4 (PermissionError ''Not your case'')) 11 () stored_cases
     rep_user =
     (Inl (HTTPException 403 ''Not your case'') :: py_exception + string) \<and>
   create_new_sales_case (raising2 (PermissionError ''Not your case'')) () stored_cases
     rep_user =
     (Inl (PermissionError ''Not your case'') :: py_exception + string SalesCase) \<and>
   read_sales_cases (raising4 (ValueError ''Invalid sales rep'')) None (Some 8) stored_cases
     admin_user =
     (Inl (ValueError ''Invalid sales rep'') :: py_exception + string SalesCase list) \<and>
   read_sales_case (raising2 (ValueError ''Invalid sales rep'')) 10 stored_cases admin_user =
     (Inl (ValueError ''Invalid sales rep'') :: py_exception + string SalesCase)"
  using
    translation_per_endpoint [where
      create = "raising2 (ValueError ''Invalid sales rep'') ::
        string SalesCase list \<Rightarrow> unit \<Rightarrow> py_exception + string SalesCase"
      and process = "raising4 (ValueError ''Invalid sales rep'') ::
        string SalesCase list \<Rightarrow> int \<Rightarrow> unit \<Rightarrow> User \<Rightarrow> py_exception + string"
      and listing = "raising4 (ValueError ''Invalid sales rep'') ::
        string SalesCase list \<Rightarrow> User \<Rightarrow> string option \<Rightarrow> int option \<Rightarrow>
        py_exception + string SalesCase list"
      and lookup = "raising2 (ValueError ''Invalid sales rep'') ::
        string SalesCase list \<Rightarrow> int \<Rightarrow> py_exception + string SalesCase option"
      and db = stored_cases and case_create = "()" and cid = 10 and return_request = "()"
      and current_user = admin_user and m = "''Invalid sales rep''"
      and ex = "ValueError ''Invalid sales rep''" and status_q = None
      and sales_rep_q = "Some 8"]
    translation_per_endpoint [where
      create = "raising2 (PermissionError ''Not your case'') ::
        string SalesCase list \<Rightarrow> unit \<Rightarrow> py_exception + string SalesCase"
      and process = "raising4 (PermissionError ''Not your case'') ::
        string SalesCase list \<Rightarrow> int \<Rightarrow> unit \<Rightarrow> User \<Rightarrow> py_exception + string"
      and listing = "raising4 (PermissionError ''Not your case'') ::
        string SalesCase list \<Rightarrow> User \<Rightarrow> string option \<Rightarrow> int option \<Rightarrow>
        py_exception + string SalesCase list"
      and lookup = "raising2 (PermissionError ''Not your case'') ::
        string SalesCase list \<Rightarrow> int \<Rightarrow> py_exception + string SalesCase option"
      and db = stored_cases and case_create = "()" and cid = 11 and return_request = "()"
      and current_user = rep_user and m = "''Not your case''"
      and ex = "PermissionError ''Not your case''" and status_q = None
      and sales_rep_q = None]
  by (simp add: raising2_def raising4_def)

text \<open>
  Claim C6. An exception raised by a call of the CRUD layer that is not a ValueError and,
  in the returning endpoint, not a PermissionError either, is caught and translated by no
  handler of the router: it leaves the handler unchanged.
\<close>

theorem other_exceptions_propagate:
  assumes "\<forall>m. ex \<noteq> ValueError m"
  shows "(create db case_create = Inl ex \<longrightarrow>
            create_new_sales_case create case_create db current_user = Inl ex) \<and>
         (listing db current_user status_q sales_rep_q = Inl ex \<longrightarrow>
            read_sales_cases listing status_q sales_rep_q db current_user = Inl ex) \<and>
         (lookup db cid = Inl ex \<longrightarrow>
            read_sales_case lookup cid db current_user = Inl ex) \<and>
         ((\<forall>m. ex \<noteq> PermissionError m) \<and>
            process db cid return_request current_user = Inl ex \<longrightarrow>
            return_sales_case process cid return_request db current_user = Inl ex)"
  using assms
  by (cases ex)
    (simp_all add: create_new_sales_case_def read_sales_cases_def read_sales_case_def
      return_sales_case_def)

theorem other_exceptions_propagate_witness:
  "(\<forall>m. OtherException ''IntegrityError'' \<noteq> ValueError m) \<and>
   (\<forall>m. OtherException ''IntegrityError'' \<noteq> PermissionError m) \<and>
   create_new_sales_case (raising2 (OtherException ''IntegrityError'')) () stored_cases
     admin_user =
     (Inl (OtherException ''IntegrityError'') :: py_exception + string SalesCase) \<and>
   read_sales_cases (raising4 (OtherException ''IntegrityError'')) None None stored_cases
     rep_user =
     (Inl (OtherException ''IntegrityError'') :: py_exception + string SalesCase list) \<and>
   read_sales_case (raising2 (OtherException ''IntegrityError'')) 10 stored_cases rep_user =
     (Inl (OtherException ''IntegrityError'') :: py_exception + string SalesCase) \<and>
   return_sales_case (raising4 (OtherException ''IntegrityError'')) 10 () stored_cases
     rep_user =
     (Inl (OtherException ''IntegrityError'') :: py_exception + string)"
proof -
  have not_value: "\<forall>m. OtherException ''IntegrityError'' \<noteq> ValueError m"
    by simp
  show ?thesis
    using
      other_exceptions_propagate [OF not_value, where
        create = "raising2 (OtherException ''IntegrityError'') ::
          string SalesCase list \<Rightarrow> unit \<Rightarrow> py_exception + string SalesCase"
        and listing = "raising4 (OtherException ''IntegrityError'') ::
          string SalesCase list \<Rightarrow> User \<Rightarrow> string option \<Rightarrow> int option \<Rightarrow>
          py_exception + string SalesCase list"
        and lookup = "raising2 (OtherException ''IntegrityError'') ::
          string SalesCase list \<Rightarrow> int \<Rightarrow> py_exception + string SalesCase option"
        and process = "raising4 (OtherException ''IntegrityError'') ::
          string SalesCase list \<Rightarrow> int \<Rightarrow> unit \<Rightarrow> User \<Rightarrow> py_exception + string"
        and db = stored_cases and case_create = "()" and cid = 10 and return_request = "()"
        and current_user = rep_user and status_q = None and sales_rep_q = None]
      other_exceptions_propagate [OF not_value, where
        create = "raising2 (OtherException ''IntegrityError'') ::
          string SalesCase list \<Rightarrow> unit \<Rightarrow> py_exception + string SalesCase"
        and listing = "raising4 (OtherException ''IntegrityError'') ::
          string SalesCase list \<Rightarrow> User \<Rightarrow> string option \<Rightarrow> int option \<Rightarrow>
          py_exception + string SalesCase list"
        and lookup = "raising2 (OtherException ''IntegrityError'') ::
          string SalesCase list \<Rightarrow> int \<Rightarrow> py_exception + string SalesCase option"
        and process = "raising4 (OtherException ''IntegrityError'') ::
          string SalesCase list \<Rightarrow> int \<Rightarrow> unit \<Rightarrow> User \<Rightarrow> py_exception + string"
        and db = stored_cases and case_create = "()" and cid = 10 and return_request = "()"
        and current_user = admin_user and status_q = None and sales_rep_q = None]
    by (simp add: raising2_def raising4_def)
qed

section \<open>Listing the sales cases\<close>

text \<open>
  Claim C7. For every caller and every combination of the optional filters
  \<^verbatim>\<open>status\<close> and \<^verbatim>\<open>sales_rep_id\<close>, the handler of GET /sales-cases/ passes the caller and
  both filters unchanged to \<^verbatim>\<open>crud.get_sales_cases\<close> and gives back what that call
  gives, a list or an exception, unchanged: it filters, scopes and translates nothing.
\<close>

theorem read_sales_cases_delegates:
  "read_sales_cases listing status_q sales_rep_q db current_user =
     listing db current_user status_q sales_rep_q"
  by (simp add: read_sales_cases_def split: sum.split)

text \<open>
  Claim C8. For a caller whose role is SALES_REP and every combination of the filters,
  GET /sales-cases/ returns a list, and every case of that list has the id of the caller
  as its \<^verbatim>\<open>sales_rep_id\<close>: the case of another representative is never in the result.
  The scoping is the work of \<^verbatim>\<open>crud.get_sales_cases\<close>, taken here as the spec describes
  it.
\<close>

theorem read_sales_cases_scoped_to_rep:
  assumes "role current_user = SALES_REP"
  shows "\<exists>cases.
           read_sales_cases crud_get_sales_cases status_q sales_rep_q db current_user =
             Inr cases \<and>
           (\<forall>c \<in> set cases. sales_rep_id c = id_user current_user) \<and>
           (\<forall>c \<in> set db. sales_rep_id c \<noteq> id_user current_user \<longrightarrow> c \<notin> set cases)"
  using assms by (simp add: read_sales_cases_def crud_get_sales_cases_def)

theorem read_sales_cases_scoped_to_rep_witness:
  "role rep_user = SALES_REP \<and>
   read_sales_cases crud_get_sales_cases None (Some 8) stored_cases rep_user =
     Inr [case_of_rep_7] \<and>
   read_sales_cases crud_get_sales_cases None None stored_cases rep_user =
     Inr [case_of_rep_7] \<and>
   sales_rep_id case_of_rep_7 = id_user rep_user \<and>
   sales_rep_id case_of_rep_8 \<noteq> id_user rep_user"
proof -
  have rep: "role rep_user = SALES_REP"
    by (simp add: rep_user_def)
  show ?thesis
    using rep
      read_sales_cases_scoped_to_rep [OF rep, where status_q = None
        and sales_rep_q = "Some 8" and db = stored_cases]
      read_sales_cases_scoped_to_rep [OF rep, where status_q = None
        and sales_rep_q = None and db = stored_cases]
    by (simp add: read_sales_cases_def crud_get_sales_cases_def stored_cases_def
        case_of_rep_7_def case_of_rep_8_def rep_user_def)
qed

end
